theory Spec2Isabelle
  imports Complex_Main
begin

section \<open>The scatter-data transformer (transformScatterplotData.ts)\<close>

subsection \<open>Input records\<close>

text \<open>
  A metric as the code can find it in a node: the key is absent (reading it gives
  \<open>undefined\<close>), or it holds \<open>null\<close>, or it holds a number. A number is the real it
  denotes (the records are a JSON response, which has neither \<open>NaN\<close> nor an infinity).
\<close>

datatype jsnumber = Undefined | Null | Number real

text \<open>
  Modelled from the spec: the interface \<open>JordanIndustry\<close> of \<open>graphql/graphQLTypes\<close>,
  whose declaration is not among the sources. It is a record with the optional fields
  \<open>industryCode\<close>, \<open>title\<close>, \<open>keywords\<close> and \<open>description\<close> and a nested \<open>factors\<close>
  holding a list of edges, each with a node carrying the three numeric metrics; these
  are the fields the transformer reads. For a string, an object or an array, \<open>None\<close>
  stands for \<open>null\<close> and for \<open>undefined\<close> alike: the transformer tests these for
  truthiness only, and both are falsy and both throw when a property is read from
  them. The metrics are tested with \<open>!== null\<close>, which tells the two apart, so they are
  of type \<open>jsnumber\<close>. The field \<open>keywords\<close> carries a prime, the plain word being
  reserved in a theory header.
\<close>

record Factors =
  viability :: jsnumber
  attractiveness :: jsnumber
  rca :: jsnumber

record FactorsEdge =
  node :: "Factors option"

record FactorsConnection =
  edges :: "FactorsEdge option list option"

record JordanIndustry =
  industryCode :: "string option"
  title :: "string option"
  keywords' :: "string option"
  description :: "string option"
  factors :: "FactorsConnection option"

text \<open>The argument \<open>{value, label}\<close> handed to \<open>setSelectedIndustry\<close>, in this order.\<close>

datatype TreeNode = TreeNode "string option" "string option"

text \<open>
  \<open>setSelectedIndustry\<close> returns nothing: it acts on the caller's state, of type \<open>'w\<close>.
\<close>

record 'w Input =
  rawDatum :: "JordanIndustry list"
  id' :: string
  setSelectedIndustry :: "TreeNode \<Rightarrow> 'w \<Rightarrow> 'w"

subsection \<open>Output points\<close>

text \<open>
  An arrow function evaluates to a fresh function object. \<open>ref\<close> is the identity of that
  object (its allocation number), \<open>call\<close> is what invoking it does.
\<close>

record 'w Closure =
  ref :: nat
  call :: "'w \<Rightarrow> 'w"

text \<open>
  The fields hold the values the code stores at run time: \<open>label\<close> is the record's
  \<open>title\<close> and \<open>x\<close> and \<open>y\<close> are the node's metrics as they are read, so a point
  that lacks one of them shows as such.
\<close>

record 'w ScatterPlotDatum =
  label :: "string option"
  x :: jsnumber
  y :: jsnumber
  fill :: string
  highlighted :: bool
  tooltipContent :: string
  tooltipContentOnly :: bool
  onClick :: "'w Closure"

text \<open>
  What the transformer takes from outside the repository: \<open>rgba\<close> of the package
  \<open>polished\<close>, and the conversion of a number to a string that \<open>+\<close> applies.
\<close>

record Library =
  rgba :: "string \<Rightarrow> real \<Rightarrow> string"
  numberToString :: "real \<Rightarrow> string"

subsection \<open>JavaScript's conversions\<close>

text \<open>A string is truthy when it is not \<open>null\<close> and not empty.\<close>

definition truthy_string :: "string option \<Rightarrow> bool" where
  "truthy_string v = (case v of None \<Rightarrow> False | Some s \<Rightarrow> s \<noteq> [])"

text \<open>An object or an array is truthy when it is not \<open>null\<close> (an empty array is truthy).\<close>

definition truthy_object :: "'a option \<Rightarrow> bool" where
  "truthy_object v = (v \<noteq> None)"

text \<open>\<open>v !== null\<close>: strict, so \<open>undefined\<close> is not \<open>null\<close>.\<close>

definition not_null :: "jsnumber \<Rightarrow> bool" where
  "not_null v = (v \<noteq> Null)"

text \<open>
  \<open>v < 1\<close>: \<open>null\<close> converts to \<open>0\<close>, and \<open>undefined\<close> to \<open>NaN\<close>, which is below
  nothing.
\<close>

definition less_than_one :: "jsnumber \<Rightarrow> bool" where
  "less_than_one v = (case v of Undefined \<Rightarrow> False | Null \<Rightarrow> True | Number r \<Rightarrow> r < 1)"

text \<open>
  The string that \<open>'...' + v\<close> appends. (The transform appends the three strings of an
  included record only, which are not \<open>None\<close>.)
\<close>

definition string_of_string :: "string option \<Rightarrow> string" where
  "string_of_string v = (case v of None \<Rightarrow> ''null'' | Some s \<Rightarrow> s)"

definition string_of_number :: "Library \<Rightarrow> jsnumber \<Rightarrow> string" where
  "string_of_number lib v =
     (case v of
        Undefined \<Rightarrow> ''undefined''
      | Null \<Rightarrow> ''null''
      | Number r \<Rightarrow> numberToString lib r)"

subsection \<open>Property reads\<close>

text \<open>
  Reading a property of \<open>null\<close> or \<open>undefined\<close> throws a \<open>TypeError\<close>; reading index
  \<open>0\<close> of an empty array gives \<open>undefined\<close>, here \<open>None\<close>.
\<close>

datatype error = TypeError

definition factors_edges :: "JordanIndustry \<Rightarrow> error + FactorsEdge option list option" where
  "factors_edges datum =
     (case factors datum of None \<Rightarrow> Inl TypeError | Some f \<Rightarrow> Inr (edges f))"

definition factors_edges_0 :: "JordanIndustry \<Rightarrow> error + FactorsEdge option" where
  "factors_edges_0 datum =
     (case factors_edges datum of
        Inl e \<Rightarrow> Inl e
      | Inr None \<Rightarrow> Inl TypeError
      | Inr (Some []) \<Rightarrow> Inr None
      | Inr (Some (e # _)) \<Rightarrow> Inr e)"

definition factors_edges_0_node :: "JordanIndustry \<Rightarrow> error + Factors option" where
  "factors_edges_0_node datum =
     (case factors_edges_0 datum of
        Inl e \<Rightarrow> Inl e
      | Inr None \<Rightarrow> Inl TypeError
      | Inr (Some e) \<Rightarrow> Inr (node e))"

definition node_metric :: "(Factors \<Rightarrow> jsnumber) \<Rightarrow> JordanIndustry \<Rightarrow> error + jsnumber" where
  "node_metric m datum =
     (case factors_edges_0_node datum of
        Inl e \<Rightarrow> Inl e
      | Inr None \<Rightarrow> Inl TypeError
      | Inr (Some n) \<Rightarrow> Inr (m n))"

subsection \<open>The transform\<close>

text \<open>
  A chain \<open>c1 && c2 && ...\<close> as a condition: the operands are evaluated from the left
  and the first falsy one ends the chain, so the operands after it throw nothing.
\<close>

fun and_chain :: "(error + bool) list \<Rightarrow> error + bool" where
  "and_chain [] = Inr True"
| "and_chain (Inl e # cs) = Inl e"
| "and_chain (Inr False # cs) = Inr False"
| "and_chain (Inr True # cs) = and_chain cs"

text \<open>The condition of lines 21 to 24.\<close>

definition guard :: "JordanIndustry \<Rightarrow> error + bool" where
  "guard datum = and_chain
     [Inr (truthy_string (industryCode datum)),
      Inr (truthy_string (title datum)),
      Inr (truthy_string (keywords' datum)),
      Inr (truthy_string (description datum)),
      Inr (truthy_object (factors datum)),
      map_sum id truthy_object (factors_edges datum),
      map_sum id truthy_object (factors_edges_0 datum),
      map_sum id truthy_object (factors_edges_0_node datum),
      map_sum id not_null (node_metric viability datum),
      map_sum id not_null (node_metric attractiveness datum),
      map_sum id not_null (node_metric rca datum)]"

text \<open>A record is included when the condition holds for it.\<close>

definition included :: "JordanIndustry \<Rightarrow> bool" where
  "included datum = (guard datum = Inr True)"

text \<open>Lines 26 to 44: the object pushed for \<open>datum\<close>, its closure allocated at \<open>r\<close>.\<close>

definition make_point ::
  "Library \<Rightarrow> 'w Input \<Rightarrow> JordanIndustry \<Rightarrow> nat \<Rightarrow> error + 'w ScatterPlotDatum" where
  "make_point lib input datum r =
     (case node_metric rca datum of Inl e \<Rightarrow> Inl e | Inr rca_v \<Rightarrow>
      case node_metric viability datum of Inl e \<Rightarrow> Inl e | Inr x_v \<Rightarrow>
      case node_metric attractiveness datum of Inl e \<Rightarrow> Inl e | Inr y_v \<Rightarrow>
        let color = (if less_than_one rca_v then ''#46899F'' else ''#E0B04E'') in
        Inr \<lparr> label = title datum,
              x = x_v,
              y = y_v,
              fill = rgba lib color (1 / 2),
              highlighted = (industryCode datum = Some (id' input)),
              tooltipContent =
                ''<strong>Theme:</strong> '' @ string_of_string (description datum) @
                ''<br /><strong>SubTheme:</strong> '' @ string_of_string (keywords' datum) @
                ''<br /><strong>Description:</strong> '' @ string_of_string (title datum) @
                ''<br /><strong>Viability:</strong> '' @ string_of_number lib x_v @
                ''<br /><strong>Attractiveness:</strong> '' @ string_of_number lib y_v,
              tooltipContentOnly = True,
              onClick = \<lparr> ref = r,
                call = setSelectedIndustry input (TreeNode (industryCode datum) (title datum)) \<rparr> \<rparr>)"

text \<open>
  The state of the loop: the array \<open>transformedData\<close> and the number of the next
  function object.
\<close>

record 'w loop_state =
  transformedData :: "'w ScatterPlotDatum list"
  next_ref :: nat

text \<open>The callback of \<open>forEach\<close>, lines 19 to 46.\<close>

definition callback ::
  "Library \<Rightarrow> 'w Input \<Rightarrow> JordanIndustry \<Rightarrow> 'w loop_state \<Rightarrow> error + 'w loop_state" where
  "callback lib input datum st =
     (case guard datum of
        Inl e \<Rightarrow> Inl e
      | Inr False \<Rightarrow> Inr st
      | Inr True \<Rightarrow>
          (case make_point lib input datum (next_ref st) of
             Inl e \<Rightarrow> Inl e
           | Inr p \<Rightarrow> Inr \<lparr> transformedData = transformedData st @ [p],
                            next_ref = Suc (next_ref st) \<rparr>))"

text \<open>\<open>Array.prototype.forEach\<close>, stopping at the first exception.\<close>

fun forEach :: "('a \<Rightarrow> 's \<Rightarrow> error + 's) \<Rightarrow> 'a list \<Rightarrow> 's \<Rightarrow> error + 's" where
  "forEach f [] st = Inr st"
| "forEach f (a # as) st = (case f a st of Inl e \<Rightarrow> Inl e | Inr st' \<Rightarrow> forEach f as st')"

text \<open>
  The exported function, started with \<open>h\<close> function objects allocated: the points, and
  the number of function objects after the call.
\<close>

definition transform ::
  "Library \<Rightarrow> 'w Input \<Rightarrow> nat \<Rightarrow> error + ('w ScatterPlotDatum list \<times> nat)" where
  "transform lib input h =
     (case forEach (callback lib input) (rawDatum input) \<lparr> transformedData = [], next_ref = h \<rparr> of
        Inl e \<Rightarrow> Inl e
      | Inr st \<Rightarrow> Inr (transformedData st, next_ref st))"

subsection \<open>The specification's words\<close>

text \<open>"The first edge's node": the first related metrics record, when there is one.\<close>

definition first_node :: "JordanIndustry \<Rightarrow> Factors option" where
  "first_node datum =
     (case factors datum of
        None \<Rightarrow> None
      | Some f \<Rightarrow>
          (case edges f of
             None \<Rightarrow> None
           | Some [] \<Rightarrow> None
           | Some (None # _) \<Rightarrow> None
           | Some (Some e # _) \<Rightarrow> node e))"

text \<open>"\<open>factors.edges\<close> is non-empty".\<close>

definition edges_non_empty :: "JordanIndustry \<Rightarrow> bool" where
  "edges_non_empty datum =
     (case factors datum of
        None \<Rightarrow> False
      | Some f \<Rightarrow> (case edges f of None \<Rightarrow> False | Some es \<Rightarrow> es \<noteq> []))"

text \<open>"Present and non-empty".\<close>

definition present_non_empty :: "string option \<Rightarrow> bool" where
  "present_non_empty v = (case v of None \<Rightarrow> False | Some s \<Rightarrow> s \<noteq> [])"

text \<open>A metric is "present and non-null" when it is a number.\<close>

definition present_non_null :: "jsnumber \<Rightarrow> bool" where
  "present_non_null v = (case v of Number _ \<Rightarrow> True | _ \<Rightarrow> False)"

text \<open>"Well-formed for plotting", as the data model of the specification puts it.\<close>

definition well_formed_for_plotting :: "JordanIndustry \<Rightarrow> bool" where
  "well_formed_for_plotting datum =
     (present_non_empty (industryCode datum) \<and>
      present_non_empty (title datum) \<and>
      present_non_empty (keywords' datum) \<and>
      present_non_empty (description datum) \<and>
      edges_non_empty datum \<and>
      (case first_node datum of
         None \<Rightarrow> False
       | Some n \<Rightarrow>
           present_non_null (viability n) \<and> present_non_null (attractiveness n) \<and>
           present_non_null (rca n)))"

text \<open>
  The first edge's node, if there is one, carries each of the three metrics, as a number
  or as \<open>null\<close>.
\<close>

definition metrics_not_absent :: "JordanIndustry \<Rightarrow> bool" where
  "metrics_not_absent datum =
     (case first_node datum of
        None \<Rightarrow> True
      | Some n \<Rightarrow>
          viability n \<noteq> Undefined \<and> attractiveness n \<noteq> Undefined \<and> rca n \<noteq> Undefined)"

text \<open>Every field of a point but \<open>onClick\<close>.\<close>

definition other_fields ::
  "'w ScatterPlotDatum \<Rightarrow> string option \<times> jsnumber \<times> jsnumber \<times> string \<times> bool \<times> string \<times> bool" where
  "other_fields p =
     (label p, x p, y p, fill p, highlighted p, tooltipContent p, tooltipContentOnly p)"

section \<open>The chart host (components/dataViz/index.tsx)\<close>

subsection \<open>Props, refs and the calls to the collaborators\<close>

text \<open>
  \<open>VizType\<close> is a string enum: at run time \<open>props.vizType\<close> is a string, compared
  with \<open>===\<close> against the three values.
\<close>

definition VizType_ScatterPlot :: string where
  "VizType_ScatterPlot = ''ScatterPlot''"

definition VizType_BarChart :: string where
  "VizType_BarChart = ''BarChart''"

definition VizType_RadarChart :: string where
  "VizType_RadarChart = ''RadarChart''"

text \<open>\<open>props.color\<close>; the second field carries a prime, the plain word being reserved.\<close>

record ColorProp =
  start :: string
  end' :: string

text \<open>
  The props the effect and the download handler read. The payload \<open>data\<close> and the axis
  labels are handed on as they are, so their types are parameters; a field the caller
  left out is \<open>undefined\<close>, here \<open>None\<close>.
\<close>

record ('d, 'ax) Props =
  vizType :: string
  data :: 'd
  axisLabels :: "'ax option"
  overlayData :: "'d option"
  color :: "ColorProp option"
  maxValue :: "real option"
  chartTitle :: "string option"

text \<open>The element behind \<open>sizingNodeRef\<close>: its two measurements, whole and not negative.\<close>

record SizingNode =
  clientWidth :: nat
  clientHeight :: nat

text \<open>The \<open>current\<close> value of each ref; \<open>'n\<close> is the type of the other DOM nodes.\<close>

record 'n Refs =
  svgNodeRef :: "'n option"
  sizingNodeRef :: "SizingNode option"
  tooltipNodeRef :: "'n option"

text \<open>\<open>select(node)\<close> of d3-selection.\<close>

datatype 'n selection = Select 'n

record Size =
  width :: nat
  height :: nat

text \<open>
  The \<open>options\<close> of the radar chart: \<open>width\<close> and \<open>height\<close>, the range given to
  \<open>scaleOrdinal()\<close> and the maximal value.
\<close>

record RadarOptions = Size +
  color_range :: "string list"
  max_value :: "real option"

text \<open>A call to one of the three drawing primitives, with the fields of its argument.\<close>

datatype ('n, 'd, 'ax) draw_call =
    CreateScatterPlot "'n selection" "'n selection" 'd Size "'ax option"
  | CreateBarChart "'n selection" "'n selection" 'd Size "'ax option" "'d option"
  | CreateRadarChart "'n selection" "'n selection" 'd RadarOptions

text \<open>The call to \<open>downloadImage\<close>: \<open>svg\<close>, \<open>width\<close>, \<open>height\<close> and \<open>title\<close>.\<close>

datatype 'n download_call =
  DownloadImage (dl_svg: "'n option") (dl_width: "nat option") (dl_height: "nat option")
    (dl_title: string)

subsection \<open>The render effect\<close>

text \<open>
  The body of \<open>useEffect\<close>, lines 104 to 151: the drawing calls it makes, in order, and
  the node its clean-up function will clear. Reading \<open>props.color.start\<close> when
  \<open>props.color\<close> is \<open>undefined\<close> throws.
\<close>

definition render_effect ::
  "('d, 'ax) Props \<Rightarrow> 'n Refs \<Rightarrow> error + (('n, 'd, 'ax) draw_call list \<times> 'n option)" where
  "render_effect props refs =
     (case (svgNodeRef refs, sizingNodeRef refs, tooltipNodeRef refs) of
        (Some svgNode, Some sizingNode, Some tooltipNode) \<Rightarrow>
          (let svg = Select svgNode; tooltip = Select tooltipNode in
           if vizType props = VizType_ScatterPlot then
             Inr ([CreateScatterPlot svg tooltip (data props)
                     \<lparr> width = clientWidth sizingNode, height = clientHeight sizingNode \<rparr>
                     (axisLabels props)],
                  Some svgNode)
           else if vizType props = VizType_BarChart then
             Inr ([CreateBarChart svg tooltip (data props)
                     \<lparr> width = clientWidth sizingNode, height = clientHeight sizingNode \<rparr>
                     (axisLabels props) (overlayData props)],
                  Some svgNode)
           else if vizType props = VizType_RadarChart then
             (let (w, h) =
                (if clientWidth sizingNode > clientHeight sizingNode
                 then (clientHeight sizingNode, clientHeight sizingNode)
                 else (clientWidth sizingNode, clientWidth sizingNode))
              in case color props of
                   None \<Rightarrow> Inl TypeError
                 | Some c \<Rightarrow>
                     Inr ([CreateRadarChart svg tooltip (data props)
                             \<lparr> width = w, height = h, color_range = [start c, end' c],
                               max_value = maxValue props \<rparr>],
                          Some svgNode))
           else Inr ([], Some svgNode))
      | _ \<Rightarrow> Inr ([], None))"

text \<open>The size a drawing call was given.\<close>

fun drawn_size :: "('n, 'd, 'ax) draw_call \<Rightarrow> nat \<times> nat" where
  "drawn_size (CreateScatterPlot _ _ _ sz _) = (width sz, height sz)"
| "drawn_size (CreateBarChart _ _ _ sz _ _) = (width sz, height sz)"
| "drawn_size (CreateRadarChart _ _ _ options) = (width options, height options)"

subsection \<open>The image export\<close>

text \<open>\<open>handleDownloadImage\<close>, lines 153 to 173: the call it makes.\<close>

definition handleDownloadImage :: "('d, 'ax) Props \<Rightarrow> 'n Refs \<Rightarrow> 'n download_call" where
  "handleDownloadImage props refs =
     (let svgNode = svgNodeRef refs;
          sizingNode = sizingNodeRef refs;
          highResMultiplier = 3;
          (w, h) =
            (case (vizType props = VizType_RadarChart, sizingNode) of
               (True, Some s) \<Rightarrow>
                 if clientWidth s > clientHeight s
                 then (Some (clientHeight s * highResMultiplier),
                       Some (clientHeight s * highResMultiplier))
                 else (Some (clientWidth s * highResMultiplier),
                       Some (clientWidth s * highResMultiplier))
             | _ \<Rightarrow>
                 ((case sizingNode of
                     Some s \<Rightarrow>
                       if clientWidth s \<noteq> 0 then Some (clientWidth s * highResMultiplier) else None
                   | None \<Rightarrow> None),
                  (case sizingNode of
                     Some s \<Rightarrow>
                       if clientHeight s \<noteq> 0 then Some (clientHeight s * highResMultiplier) else None
                   | None \<Rightarrow> None)));
          title_v = (if truthy_string (chartTitle props)
                     then string_of_string (chartTitle props) else ''chart'')
      in DownloadImage svgNode w h title_v)"

section \<open>The concrete scenarios of the specification\<close>

text \<open>
  The record \<open>A1\<close> of the scenarios, with the given \<open>rca\<close> and description; a library
  and a callback to run it with (the callback logs its argument).
\<close>

definition scenario_datum :: "real \<Rightarrow> string option \<Rightarrow> JordanIndustry" where
  "scenario_datum r dsc =
     \<lparr> industryCode = Some ''A1'', title = Some ''Tech'', keywords' = Some ''soft'',
       description = dsc,
       factors = Some \<lparr> edges = Some [Some \<lparr> node = Some
         \<lparr> viability = Number 5, attractiveness = Number 7, rca = Number r \<rparr> \<rparr>] \<rparr> \<rparr>"

text \<open>The same record with another first node.\<close>

definition scenario_datum_node :: "Factors \<Rightarrow> JordanIndustry" where
  "scenario_datum_node n =
     \<lparr> industryCode = Some ''A1'', title = Some ''Tech'', keywords' = Some ''soft'',
       description = Some ''desc'',
       factors = Some \<lparr> edges = Some [Some \<lparr> node = Some n \<rparr>] \<rparr> \<rparr>"

definition scenario_library :: Library where
  "scenario_library =
     \<lparr> rgba = (\<lambda>c a. ''rgba('' @ c @ '')''),
       numberToString = (\<lambda>r. if r = 5 then ''5'' else if r = 7 then ''7'' else ''?'') \<rparr>"

definition scenario_input :: "JordanIndustry list \<Rightarrow> string \<Rightarrow> (TreeNode list) Input" where
  "scenario_input rs sel =
     \<lparr> rawDatum = rs, id' = sel, setSelectedIndustry = (\<lambda>t log. t # log) \<rparr>"

text \<open>A chart host in a container of the given size, all three refs attached.\<close>

definition scenario_props :: "string \<Rightarrow> (unit, unit) Props" where
  "scenario_props tag =
     \<lparr> vizType = tag, data = (), axisLabels = None, overlayData = None,
       color = Some \<lparr> start = ''#000'', end' = ''#fff'' \<rparr>, maxValue = Some 10,
       chartTitle = None \<rparr>"

definition scenario_refs :: "nat \<Rightarrow> nat \<Rightarrow> unit Refs" where
  "scenario_refs cw ch =
     \<lparr> svgNodeRef = Some (), sizingNodeRef = Some \<lparr> clientWidth = cw, clientHeight = ch \<rparr>,
       tooltipNodeRef = Some () \<rparr>"

section \<open>Properties of the transformer\<close>

lemma and_chain_Inr: "and_chain (Inr b # cs) = (if b then and_chain cs else Inr False)"
  by (cases b) simp_all

lemma guard_no_factors:
  "factors datum = None \<Longrightarrow> guard datum = Inr False"
  by (simp add: guard_def and_chain_Inr truthy_object_def)

lemma guard_falsy_string:
  "\<not> (truthy_string (industryCode datum) \<and> truthy_string (title datum) \<and>
      truthy_string (keywords' datum) \<and> truthy_string (description datum))
   \<Longrightarrow> guard datum = Inr False"
  by (auto simp: guard_def and_chain_Inr)

lemma guard_factors:
  assumes "truthy_string (industryCode datum)" "truthy_string (title datum)"
    "truthy_string (keywords' datum)" "truthy_string (description datum)"
    and "factors datum = Some f"
  shows "guard datum =
    Inr (edges_non_empty datum \<and>
      (case first_node datum of None \<Rightarrow> False
       | Some n \<Rightarrow> viability n \<noteq> Null \<and> attractiveness n \<noteq> Null \<and> rca n \<noteq> Null))"
  using assms
  by (simp add: guard_def and_chain_Inr truthy_object_def not_null_def edges_non_empty_def
      first_node_def factors_edges_def factors_edges_0_def factors_edges_0_node_def
      node_metric_def split: option.splits list.splits)

lemma present_non_empty_truthy: "present_non_empty v = truthy_string v"
  by (simp add: present_non_empty_def truthy_string_def)

text \<open>
  The condition throws for no record, and it holds exactly when the four strings are
  present and non-empty, \<open>factors.edges\<close> is non-empty and the first edge's node has no
  metric that is \<open>null\<close>.
\<close>

lemma guard_value:
  "guard datum =
    Inr (present_non_empty (industryCode datum) \<and> present_non_empty (title datum) \<and>
      present_non_empty (keywords' datum) \<and> present_non_empty (description datum) \<and>
      edges_non_empty datum \<and>
      (case first_node datum of None \<Rightarrow> False
       | Some n \<Rightarrow> viability n \<noteq> Null \<and> attractiveness n \<noteq> Null \<and> rca n \<noteq> Null))"
proof (cases "truthy_string (industryCode datum) \<and> truthy_string (title datum) \<and>
    truthy_string (keywords' datum) \<and> truthy_string (description datum)")
  case False
  then have "guard datum = Inr False"
    by (rule guard_falsy_string)
  with False show ?thesis
    by (auto simp: present_non_empty_truthy)
next
  case strings: True
  show ?thesis
  proof (cases "factors datum")
    case None
    then have "\<not> edges_non_empty datum"
      by (simp add: edges_non_empty_def)
    with None show ?thesis
      by (simp add: guard_no_factors)
  next
    case (Some f)
    with strings show ?thesis
      by (simp add: guard_factors present_non_empty_truthy)
  qed
qed

lemma included_iff:
  "included datum \<longleftrightarrow>
    present_non_empty (industryCode datum) \<and> present_non_empty (title datum) \<and>
    present_non_empty (keywords' datum) \<and> present_non_empty (description datum) \<and>
    edges_non_empty datum \<and>
    (case first_node datum of None \<Rightarrow> False
     | Some n \<Rightarrow> viability n \<noteq> Null \<and> attractiveness n \<noteq> Null \<and> rca n \<noteq> Null)"
  unfolding included_def guard_value by simp

lemma guard_included: "guard datum = Inr (included datum)"
  unfolding included_iff by (rule guard_value)

lemma present_non_null_iff: "present_non_null v \<longleftrightarrow> v \<noteq> Null \<and> v \<noteq> Undefined"
  by (cases v) (simp_all add: present_non_null_def)

text \<open>
  Every well-formed record is included; an included record is well-formed unless a
  metric of its first node is absent.
\<close>

lemma well_formed_included: "well_formed_for_plotting datum \<Longrightarrow> included datum"
  by (auto simp: well_formed_for_plotting_def included_iff present_non_null_iff
      split: option.splits)

lemma included_well_formed:
  "metrics_not_absent datum \<Longrightarrow> included datum = well_formed_for_plotting datum"
  by (auto simp: well_formed_for_plotting_def included_iff present_non_null_iff
      metrics_not_absent_def split: option.splits)

lemma included_first_node:
  assumes "included datum"
  obtains n where "first_node datum = Some n" "viability n \<noteq> Null"
    "attractiveness n \<noteq> Null" "rca n \<noteq> Null"
  using assms by (auto simp: included_iff split: option.splits)

lemma node_metric_first_node:
  "first_node datum = Some n \<Longrightarrow> node_metric m datum = Inr (m n)"
  by (auto simp: first_node_def node_metric_def factors_edges_0_node_def factors_edges_0_def
      factors_edges_def split: option.splits list.splits)

lemma make_point_first_node:
  assumes "first_node datum = Some n"
  shows "make_point lib input datum r =
    Inr \<lparr> label = title datum,
          x = viability n,
          y = attractiveness n,
          fill = rgba lib (if less_than_one (rca n) then ''#46899F'' else ''#E0B04E'') (1 / 2),
          highlighted = (industryCode datum = Some (id' input)),
          tooltipContent =
            ''<strong>Theme:</strong> '' @ string_of_string (description datum) @
            ''<br /><strong>SubTheme:</strong> '' @ string_of_string (keywords' datum) @
            ''<br /><strong>Description:</strong> '' @ string_of_string (title datum) @
            ''<br /><strong>Viability:</strong> '' @ string_of_number lib (viability n) @
            ''<br /><strong>Attractiveness:</strong> '' @ string_of_number lib (attractiveness n),
          tooltipContentOnly = True,
          onClick = \<lparr> ref = r,
            call = setSelectedIndustry input (TreeNode (industryCode datum) (title datum)) \<rparr> \<rparr>"
  by (simp add: make_point_def node_metric_first_node [OF assms] Let_def)

lemma callback_skip:
  "\<not> included datum \<Longrightarrow> callback lib input datum st = Inr st"
  by (simp add: callback_def guard_included)

lemma callback_push:
  assumes "included datum"
  shows "\<exists>p. make_point lib input datum (next_ref st) = Inr p \<and>
    callback lib input datum st =
      Inr \<lparr> transformedData = transformedData st @ [p], next_ref = Suc (next_ref st) \<rparr>"
proof -
  from assms obtain n where "first_node datum = Some n"
    by (rule included_first_node)
  then obtain p where "make_point lib input datum (next_ref st) = Inr p"
    using make_point_first_node by blast
  with assms show ?thesis
    by (simp add: callback_def guard_included)
qed

text \<open>
  The loop appends, to the array it starts with, one point for each included record,
  in the order of the records, and allocates one function object for each.
\<close>

lemma forEach_callback:
  "\<exists>ps. forEach (callback lib input) rs st =
      Inr \<lparr> transformedData = transformedData st @ ps, next_ref = next_ref st + length ps \<rparr> \<and>
    length ps = length (filter included rs) \<and>
    (\<forall>i<length ps.
       make_point lib input (filter included rs ! i) (next_ref st + i) = Inr (ps ! i))"
proof (induction rs arbitrary: st)
  case Nil
  show ?case by simp
next
  case (Cons d rs)
  show ?case
  proof (cases "included d")
    case False
    with Cons.IH [of st] show ?thesis
      by (simp add: callback_skip)
  next
    case True
    then obtain p where p: "make_point lib input d (next_ref st) = Inr p"
      and step: "callback lib input d st =
        Inr \<lparr> transformedData = transformedData st @ [p], next_ref = Suc (next_ref st) \<rparr>"
      using callback_push by blast
    define st1 :: "'a loop_state"
      where "st1 = \<lparr> transformedData = transformedData st @ [p], next_ref = Suc (next_ref st) \<rparr>"
    from Cons.IH [of st1] obtain qs where
      run: "forEach (callback lib input) rs st1 =
        Inr \<lparr> transformedData = transformedData st1 @ qs, next_ref = next_ref st1 + length qs \<rparr>"
      and len: "length qs = length (filter included rs)"
      and pts: "\<forall>i<length qs.
        make_point lib input (filter included rs ! i) (next_ref st1 + i) = Inr (qs ! i)"
      by blast
    have "forEach (callback lib input) (d # rs) st =
        Inr \<lparr> transformedData = transformedData st @ (p # qs),
              next_ref = next_ref st + length (p # qs) \<rparr>"
      using step run by (simp add: st1_def)
    moreover have "length (p # qs) = length (filter included (d # rs))"
      using True len by simp
    moreover have "\<forall>i<length (p # qs).
        make_point lib input (filter included (d # rs) ! i) (next_ref st + i) =
          Inr ((p # qs) ! i)"
    proof (intro allI impI)
      fix i assume "i < length (p # qs)"
      then show "make_point lib input (filter included (d # rs) ! i)
          (next_ref st + i) = Inr ((p # qs) ! i)"
        using True p pts by (cases i) (simp_all add: st1_def)
    qed
    ultimately show ?thesis by blast
  qed
qed

lemma transform_points:
  "\<exists>ps. transform lib input h = Inr (ps, h + length ps) \<and>
    length ps = length (filter included (rawDatum input)) \<and>
    (\<forall>i<length ps.
       make_point lib input (filter included (rawDatum input) ! i) (h + i) =
         Inr (ps ! i))"
proof -
  obtain ps where
    "forEach (callback lib input) (rawDatum input) \<lparr> transformedData = [], next_ref = h \<rparr> =
      Inr \<lparr> transformedData = ps, next_ref = h + length ps \<rparr>"
    and "length ps = length (filter included (rawDatum input))"
    and "\<forall>i<length ps.
       make_point lib input (filter included (rawDatum input) ! i) (h + i) =
         Inr (ps ! i)"
    using forEach_callback [of lib input "rawDatum input" "\<lparr> transformedData = [], next_ref = h \<rparr>"]
    by auto
  then show ?thesis
    by (auto simp: transform_def)
qed

lemma nth_filter_holds: "i < length (filter P xs) \<Longrightarrow> P (filter P xs ! i)"
  using nth_mem [of i "filter P xs"] by simp

lemma present_non_empty_Some: "present_non_empty v \<Longrightarrow> \<exists>s. v = Some s \<and> s \<noteq> []"
  by (cases v) (simp_all add: present_non_empty_def)

lemma included_strings:
  assumes "included datum"
  obtains ic t kw dsc where "industryCode datum = Some ic" "title datum = Some t"
    "keywords' datum = Some kw" "description datum = Some dsc"
proof -
  from assms have "present_non_empty (industryCode datum)" "present_non_empty (title datum)"
    "present_non_empty (keywords' datum)" "present_non_empty (description datum)"
    by (simp_all add: included_iff)
  then show ?thesis
    using that by (blast dest: present_non_empty_Some)
qed

lemma scenario_datum_included:
  "included (scenario_datum r dsc) = present_non_empty dsc"
  by (simp add: included_iff scenario_datum_def present_non_empty_def
      edges_non_empty_def first_node_def)

lemma scenario_first_node:
  "first_node (scenario_datum r dsc) =
     Some \<lparr> viability = Number 5, attractiveness = Number 7, rca = Number r \<rparr>"
  by (simp add: scenario_datum_def first_node_def)

lemma scenario_node_first_node: "first_node (scenario_datum_node n) = Some n"
  by (simp add: scenario_datum_node_def first_node_def)

lemma scenario_node_included:
  "included (scenario_datum_node n) \<longleftrightarrow>
     viability n \<noteq> Null \<and> attractiveness n \<noteq> Null \<and> rca n \<noteq> Null"
  unfolding included_iff scenario_node_first_node
  by (simp add: scenario_datum_node_def present_non_empty_def edges_non_empty_def)

subsection \<open>Which records become points\<close>

text \<open>
  The record \<open>A1\<close> whose first node has no \<open>viability\<close> key is not well-formed for
  plotting, so Claim C1 as it was first put has it skipped. The test of line 23,
  \<open>viability !== null\<close>, holds for it, and the transform returns one point, whose \<open>x\<close>
  is \<open>undefined\<close>.
\<close>

theorem C1_absent_metric_counterexample:
  "\<not> well_formed_for_plotting
       (scenario_datum_node \<lparr> viability = Undefined, attractiveness = Number 7, rca = Number (4 / 5) \<rparr>) \<and>
   transform scenario_library
     (scenario_input
        [scenario_datum_node \<lparr> viability = Undefined, attractiveness = Number 7, rca = Number (4 / 5) \<rparr>]
        ''A1'') 0 =
     Inr ([\<lparr> label = Some ''Tech'', x = Undefined, y = Number 7, fill = ''rgba(#46899F)'',
             highlighted = True,
             tooltipContent =
               ''<strong>Theme:</strong> desc<br /><strong>SubTheme:</strong> soft'' @
               ''<br /><strong>Description:</strong> Tech<br /><strong>Viability:</strong> undefined'' @
               ''<br /><strong>Attractiveness:</strong> 7'',
             tooltipContentOnly = True,
             onClick = \<lparr> ref = 0, call = (#) (TreeNode (Some ''A1'') (Some ''Tech'')) \<rparr> \<rparr>], 1)"
proof -
  let ?n = "\<lparr> viability = Undefined, attractiveness = Number 7, rca = Number (4 / 5) \<rparr>"
  have n: "first_node (scenario_datum_node ?n) = Some ?n"
    by (rule scenario_node_first_node)
  have "\<not> well_formed_for_plotting (scenario_datum_node ?n)"
    by (simp add: well_formed_for_plotting_def n present_non_null_def)
  moreover have inc: "included (scenario_datum_node ?n)"
    by (simp add: scenario_node_included)
  have "callback scenario_library (scenario_input [scenario_datum_node ?n] ''A1'')
      (scenario_datum_node ?n) \<lparr> transformedData = [], next_ref = 0 \<rparr> =
    Inr \<lparr> transformedData =
          [\<lparr> label = Some ''Tech'', x = Undefined, y = Number 7, fill = ''rgba(#46899F)'',
             highlighted = True,
             tooltipContent =
               ''<strong>Theme:</strong> desc<br /><strong>SubTheme:</strong> soft'' @
               ''<br /><strong>Description:</strong> Tech<br /><strong>Viability:</strong> undefined'' @
               ''<br /><strong>Attractiveness:</strong> 7'',
             tooltipContentOnly = True,
             onClick = \<lparr> ref = 0, call = (#) (TreeNode (Some ''A1'') (Some ''Tech'')) \<rparr> \<rparr>],
          next_ref = 1 \<rparr>"
    unfolding callback_def guard_included make_point_first_node [OF n]
    using inc
    by (simp add: scenario_datum_node_def scenario_library_def scenario_input_def
        less_than_one_def string_of_string_def string_of_number_def)
  then have "transform scenario_library (scenario_input [scenario_datum_node ?n] ''A1'') 0 =
     Inr ([\<lparr> label = Some ''Tech'', x = Undefined, y = Number 7, fill = ''rgba(#46899F)'',
             highlighted = True,
             tooltipContent =
               ''<strong>Theme:</strong> desc<br /><strong>SubTheme:</strong> soft'' @
               ''<br /><strong>Description:</strong> Tech<br /><strong>Viability:</strong> undefined'' @
               ''<br /><strong>Attractiveness:</strong> 7'',
             tooltipContentOnly = True,
             onClick = \<lparr> ref = 0, call = (#) (TreeNode (Some ''A1'') (Some ''Tech'')) \<rparr> \<rparr>], 1)"
    by (simp add: transform_def scenario_input_def)
  ultimately show ?thesis
    by blast
qed

text \<open>
  Claim C1, amended. The condition of the transformer throws for no record, and it holds
  for a record exactly when \<open>industryCode\<close>, \<open>title\<close>, \<open>keywords\<close> and \<open>description\<close>
  are present and non-empty, \<open>factors.edges\<close> is non-empty, and the first edge's node
  exists and none of its \<open>viability\<close>, \<open>attractiveness\<close> and \<open>rca\<close> is \<open>null\<close>. For a
  record whose first node carries all three metrics, as numbers or as \<open>null\<close>, this is
  to be well-formed for plotting, with all three present and not \<open>null\<close>. An included
  record makes the callback push exactly one point, whose \<open>label\<close> is the record's
  title and whose \<open>x\<close> and \<open>y\<close> are the node's \<open>viability\<close> and \<open>attractiveness\<close> as
  they are read; for a well-formed record all three are there. Any other record leaves
  the array as it is, without an exception. The transform as a whole returns, without an
  exception, as many points as there are included records.
\<close>

theorem C1_included_iff_not_null:
  "guard datum = Inr (included datum) \<and>
   (included datum \<longleftrightarrow>
      present_non_empty (industryCode datum) \<and> present_non_empty (title datum) \<and>
      present_non_empty (keywords' datum) \<and> present_non_empty (description datum) \<and>
      edges_non_empty datum \<and>
      (case first_node datum of None \<Rightarrow> False
       | Some n \<Rightarrow> viability n \<noteq> Null \<and> attractiveness n \<noteq> Null \<and> rca n \<noteq> Null)) \<and>
   (metrics_not_absent datum \<longrightarrow> included datum = well_formed_for_plotting datum) \<and>
   (included datum \<longrightarrow>
      (\<exists>p n. first_node datum = Some n \<and>
         callback lib input datum st =
           Inr \<lparr> transformedData = transformedData st @ [p], next_ref = Suc (next_ref st) \<rparr> \<and>
         label p = title datum \<and> label p \<noteq> None \<and>
         x p = viability n \<and> y p = attractiveness n)) \<and>
   (well_formed_for_plotting datum \<longrightarrow>
      (\<exists>p. callback lib input datum st =
             Inr \<lparr> transformedData = transformedData st @ [p], next_ref = Suc (next_ref st) \<rparr> \<and>
           label p \<noteq> None \<and> present_non_null (x p) \<and> present_non_null (y p))) \<and>
   (\<not> included datum \<longrightarrow> callback lib input datum st = Inr st) \<and>
   (\<exists>ps h'. transform lib input h = Inr (ps, h') \<and>
      length ps = length (filter included (rawDatum input)))"
proof -
  have pushed: "\<exists>p n. first_node datum = Some n \<and>
      callback lib input datum st =
        Inr \<lparr> transformedData = transformedData st @ [p], next_ref = Suc (next_ref st) \<rparr> \<and>
      label p = title datum \<and> label p \<noteq> None \<and>
      x p = viability n \<and> y p = attractiveness n" if inc: "included datum"
  proof -
    from inc obtain n where n: "first_node datum = Some n"
      by (rule included_first_node)
    from inc obtain p where p: "make_point lib input datum (next_ref st) = Inr p"
      and step: "callback lib input datum st =
        Inr \<lparr> transformedData = transformedData st @ [p], next_ref = Suc (next_ref st) \<rparr>"
      using callback_push by blast
    from inc have "title datum \<noteq> None"
      by (rule included_strings) simp
    with p have "label p = title datum \<and> label p \<noteq> None \<and>
        x p = viability n \<and> y p = attractiveness n"
      unfolding make_point_first_node [OF n] by auto
    with n step show ?thesis
      by blast
  qed
  have complete: "\<exists>p. callback lib input datum st =
        Inr \<lparr> transformedData = transformedData st @ [p], next_ref = Suc (next_ref st) \<rparr> \<and>
      label p \<noteq> None \<and> present_non_null (x p) \<and> present_non_null (y p)"
    if wf: "well_formed_for_plotting datum"
  proof -
    from wf have "included datum"
      by (rule well_formed_included)
    from pushed [OF this] obtain p n where "first_node datum = Some n"
      and step: "callback lib input datum st =
        Inr \<lparr> transformedData = transformedData st @ [p], next_ref = Suc (next_ref st) \<rparr>"
      and fields: "label p \<noteq> None" "x p = viability n" "y p = attractiveness n"
      by blast
    with wf have "present_non_null (x p) \<and> present_non_null (y p)"
      by (simp add: well_formed_for_plotting_def)
    with step fields(1) show ?thesis
      by blast
  qed
  have "\<exists>ps h'. transform lib input h = Inr (ps, h') \<and>
      length ps = length (filter included (rawDatum input))"
    using transform_points [of lib input h] by blast
  with pushed complete show ?thesis
    using guard_included [of datum] included_iff [of datum] included_well_formed [of datum]
      callback_skip [of datum lib input st]
    by blast
qed

text \<open>
  The record of the concrete scenario carries its three metrics, is well-formed and is
  included; the same record without its description is skipped.
\<close>

theorem C1_included_iff_not_null_witness:
  "metrics_not_absent (scenario_datum (4 / 5) (Some ''desc'')) \<and>
   well_formed_for_plotting (scenario_datum (4 / 5) (Some ''desc'')) \<and>
   guard (scenario_datum (4 / 5) (Some ''desc'')) = Inr True \<and>
   guard (scenario_datum (4 / 5) None) = Inr False \<and>
   (\<exists>p. callback scenario_library
          (scenario_input [scenario_datum (4 / 5) None, scenario_datum (4 / 5) (Some ''desc'')] ''A1'')
          (scenario_datum (4 / 5) (Some ''desc'')) \<lparr> transformedData = [], next_ref = 0 \<rparr> =
         Inr \<lparr> transformedData = [p], next_ref = 1 \<rparr> \<and>
        label p = Some ''Tech'' \<and> x p = Number 5 \<and> y p = Number 7) \<and>
   callback scenario_library
     (scenario_input [scenario_datum (4 / 5) None, scenario_datum (4 / 5) (Some ''desc'')] ''A1'')
     (scenario_datum (4 / 5) None) \<lparr> transformedData = [], next_ref = 0 \<rparr> =
     Inr \<lparr> transformedData = [], next_ref = 0 \<rparr> \<and>
   (\<exists>ps h'. transform scenario_library
        (scenario_input [scenario_datum (4 / 5) None, scenario_datum (4 / 5) (Some ''desc'')] ''A1'') 0 =
        Inr (ps, h') \<and> length ps = 1)"
proof -
  let ?good = "scenario_datum (4 / 5) (Some ''desc'')"
  let ?bad = "scenario_datum (4 / 5) None"
  let ?input = "scenario_input [?bad, ?good] ''A1''"
  let ?st = "\<lparr> transformedData = [], next_ref = 0 \<rparr> :: (TreeNode list) loop_state"
  have good: "included ?good" and bad: "\<not> included ?bad"
    by (simp_all add: scenario_datum_included present_non_empty_def)
  note at_good = C1_included_iff_not_null
    [where datum = ?good and lib = scenario_library and input = ?input and st = ?st and h = 0]
  note at_bad = C1_included_iff_not_null
    [where datum = ?bad and lib = scenario_library and input = ?input and st = ?st and h = 0]
  from at_good good obtain p n where n: "first_node ?good = Some n"
    and step: "callback scenario_library ?input ?good ?st =
      Inr \<lparr> transformedData = transformedData ?st @ [p], next_ref = Suc (next_ref ?st) \<rparr>"
    and fields: "label p = title ?good" "x p = viability n" "y p = attractiveness n"
    by blast
  from n fields have fields': "label p = Some ''Tech'' \<and> x p = Number 5 \<and> y p = Number 7"
    by (auto simp: scenario_first_node) (simp add: scenario_datum_def)
  have carried: "metrics_not_absent ?good"
    by (simp add: metrics_not_absent_def scenario_first_node)
  with at_good good have "well_formed_for_plotting ?good"
    by blast
  moreover note carried
  moreover from at_good good have "guard ?good = Inr True" by simp
  moreover from at_bad bad have "guard ?bad = Inr False" by simp
  moreover from step fields' have "\<exists>p. callback scenario_library ?input ?good ?st =
         Inr \<lparr> transformedData = [p], next_ref = 1 \<rparr> \<and>
        label p = Some ''Tech'' \<and> x p = Number 5 \<and> y p = Number 7"
    by auto
  moreover from at_bad bad have "callback scenario_library ?input ?bad ?st = Inr ?st"
    by blast
  moreover from at_good good bad have "\<exists>ps h'. transform scenario_library ?input 0 = Inr (ps, h') \<and>
      length ps = 1"
    by (simp add: scenario_input_def)
  ultimately show ?thesis by blast
qed

text \<open>The point at position \<open>i\<close> of the output, from the \<open>i\<close>-th included record.\<close>

lemma transform_nth:
  assumes run: "transform lib input h = Inr (ps, h')" and i: "i < length ps"
    and d: "d = filter included (rawDatum input) ! i"
  obtains n where "included d" "first_node d = Some n"
    "ps ! i =
      \<lparr> label = title d,
        x = viability n,
        y = attractiveness n,
        fill = rgba lib (if less_than_one (rca n) then ''#46899F'' else ''#E0B04E'') (1 / 2),
        highlighted = (industryCode d = Some (id' input)),
        tooltipContent =
          ''<strong>Theme:</strong> '' @ string_of_string (description d) @
          ''<br /><strong>SubTheme:</strong> '' @ string_of_string (keywords' d) @
          ''<br /><strong>Description:</strong> '' @ string_of_string (title d) @
          ''<br /><strong>Viability:</strong> '' @ string_of_number lib (viability n) @
          ''<br /><strong>Attractiveness:</strong> '' @ string_of_number lib (attractiveness n),
        tooltipContentOnly = True,
        onClick = \<lparr> ref = h + i,
          call = setSelectedIndustry input (TreeNode (industryCode d) (title d)) \<rparr> \<rparr>"
proof -
  from transform_points [of lib input h] run
  have len: "length ps = length (filter included (rawDatum input))"
    and pts: "\<forall>j<length ps.
      make_point lib input (filter included (rawDatum input) ! j) (h + j) =
        Inr (ps ! j)"
    by auto
  from i len d have wf: "included d"
    by (simp add: nth_filter_holds)
  then obtain n where n: "first_node d = Some n"
    by (rule included_first_node)
  from pts i d have "make_point lib input d (h + i) = Inr (ps ! i)"
    by simp
  then show ?thesis
    using that [OF wf n] by (simp add: make_point_first_node [OF n])
qed

lemma transform_length:
  assumes "transform lib input h = Inr (ps, h')"
  shows "length ps = length (filter included (rawDatum input))"
    and "h' = h + length ps"
  using transform_points [of lib input h] assms by auto

subsection \<open>The colour of a point\<close>

text \<open>
  Claim C2. The point of every included record has, as its \<open>fill\<close>, \<open>rgba\<close> of the
  base colour and the alpha \<open>0.5\<close>; the base colour is \<open>#46899F\<close> when the \<open>rca\<close> of
  the first edge's node is below \<open>1\<close> and \<open>#E0B04E\<close> when it is \<open>1\<close> or more. (The
  \<open>rca\<close> of an included record is never \<open>null\<close>; where the key is absent, so that
  \<open>rca\<close> is neither below \<open>1\<close> nor at least \<open>1\<close>, the base colour is \<open>#E0B04E\<close>.)
\<close>

theorem C2_fill_colour:
  assumes "transform lib input h = Inr (ps, h')" and "i < length ps"
    and "d = filter included (rawDatum input) ! i"
  shows "\<exists>n. first_node d = Some n \<and> rca n \<noteq> Null \<and>
    fill (ps ! i) =
      rgba lib (if less_than_one (rca n) then ''#46899F'' else ''#E0B04E'') (1 / 2) \<and>
    (\<forall>r. rca n = Number r \<longrightarrow>
       fill (ps ! i) = rgba lib (if r < 1 then ''#46899F'' else ''#E0B04E'') (1 / 2)) \<and>
    (rca n = Undefined \<longrightarrow> fill (ps ! i) = rgba lib ''#E0B04E'' (1 / 2))"
proof -
  from assms obtain n where inc: "included d" and n: "first_node d = Some n"
    and colour: "fill (ps ! i) =
      rgba lib (if less_than_one (rca n) then ''#46899F'' else ''#E0B04E'') (1 / 2)"
    by (rule transform_nth) simp
  from inc n have "rca n \<noteq> Null"
    by (auto elim: included_first_node)
  with n colour show ?thesis
    by (auto simp: less_than_one_def)
qed

lemma scenario_run:
  "\<exists>ps. transform scenario_library (scenario_input rs sel) h = Inr (ps, h + length ps) \<and>
     length ps = length (filter included rs)"
  using transform_points [of scenario_library "scenario_input rs sel" h]
  by (auto simp: scenario_input_def)

text \<open>
  Three records, with \<open>rca = 0.8\<close>, with \<open>rca = 1\<close> and with no \<open>rca\<close> key: the first
  point has colour A, the other two colour B.
\<close>

theorem C2_fill_colour_witness:
  "\<exists>ps h'. transform scenario_library
       (scenario_input
          [scenario_datum (4 / 5) (Some ''desc''), scenario_datum 1 (Some ''desc''),
           scenario_datum_node \<lparr> viability = Number 5, attractiveness = Number 7, rca = Undefined \<rparr>]
          ''A1'') 0 =
       Inr (ps, h') \<and> length ps = 3 \<and>
     fill (ps ! 0) = rgba scenario_library ''#46899F'' (1 / 2) \<and>
     fill (ps ! 1) = rgba scenario_library ''#E0B04E'' (1 / 2) \<and>
     fill (ps ! 2) = rgba scenario_library ''#E0B04E'' (1 / 2)"
proof -
  let ?absent = "scenario_datum_node
    \<lparr> viability = Number 5, attractiveness = Number 7, rca = Undefined \<rparr>"
  let ?rs = "[scenario_datum (4 / 5) (Some ''desc''), scenario_datum 1 (Some ''desc''), ?absent]"
  let ?input = "scenario_input ?rs ''A1'' :: (TreeNode list) Input"
  have included: "filter included (rawDatum ?input) = ?rs"
    by (simp add: scenario_input_def scenario_datum_included scenario_node_included
        present_non_empty_def)
  obtain ps where run: "transform scenario_library ?input 0 = Inr (ps, 0 + length ps)"
    and len: "length ps = 3"
    using scenario_run [of ?rs "''A1''" 0]
    by (auto simp: scenario_datum_included scenario_node_included present_non_empty_def)
  from C2_fill_colour [OF run, of 0 "?rs ! 0"] len included
  obtain n where "first_node (?rs ! 0) = Some n"
    and colour: "\<forall>r. rca n = Number r \<longrightarrow>
      fill (ps ! 0) = rgba scenario_library (if r < 1 then ''#46899F'' else ''#E0B04E'') (1 / 2)"
    by auto
  then have "rca n = Number (4 / 5)"
    by (auto simp: scenario_first_node)
  with colour [rule_format, of "4 / 5"]
  have "fill (ps ! 0) = rgba scenario_library ''#46899F'' (1 / 2)"
    by simp
  moreover
  from C2_fill_colour [OF run, of 1 "?rs ! 1"] len included
  obtain n' where "first_node (?rs ! 1) = Some n'"
    and colour': "\<forall>r. rca n' = Number r \<longrightarrow>
      fill (ps ! 1) = rgba scenario_library (if r < 1 then ''#46899F'' else ''#E0B04E'') (1 / 2)"
    by auto
  then have "rca n' = Number 1"
    by (auto simp: scenario_first_node)
  with colour' [rule_format, of 1]
  have "fill (ps ! 1) = rgba scenario_library ''#E0B04E'' (1 / 2)"
    by simp
  moreover
  from C2_fill_colour [OF run, of 2 "?rs ! 2"] len included
  obtain n'' where "first_node (?rs ! 2) = Some n''"
    and colour'': "rca n'' = Undefined \<longrightarrow>
      fill (ps ! 2) = rgba scenario_library ''#E0B04E'' (1 / 2)"
    by auto
  then have "rca n'' = Undefined"
    by (auto simp: scenario_node_first_node)
  with colour'' have "fill (ps ! 2) = rgba scenario_library ''#E0B04E'' (1 / 2)"
    by simp
  ultimately show ?thesis
    using run len by blast
qed

subsection \<open>The highlighted point\<close>

text \<open>
  Claim C3. The point of every included record is \<open>highlighted\<close> exactly when the
  record's \<open>industryCode\<close> is the string \<open>id\<close> given to the transform, character by
  character.
\<close>

theorem C3_highlighted:
  assumes "transform lib input h = Inr (ps, h')" and "i < length ps"
    and "d = filter included (rawDatum input) ! i"
  shows "highlighted (ps ! i) \<longleftrightarrow> industryCode d = Some (id' input)"
proof -
  from assms obtain n where
    "highlighted (ps ! i) = (industryCode d = Some (id' input))"
    by (rule transform_nth) simp
  then show ?thesis by simp
qed

text \<open>The record \<open>A1\<close> is highlighted when \<open>A1\<close> is selected, and not when \<open>a1\<close> is.\<close>

theorem C3_highlighted_witness:
  "(\<exists>ps h'. transform scenario_library
       (scenario_input [scenario_datum (4 / 5) (Some ''desc'')] ''A1'') 0 = Inr (ps, h') \<and>
      length ps = 1 \<and> highlighted (ps ! 0)) \<and>
   (\<exists>ps h'. transform scenario_library
       (scenario_input [scenario_datum (4 / 5) (Some ''desc'')] ''a1'') 0 = Inr (ps, h') \<and>
      length ps = 1 \<and> \<not> highlighted (ps ! 0))"
proof -
  let ?rs = "[scenario_datum (4 / 5) (Some ''desc'')]"
  have included: "filter included (rawDatum (scenario_input ?rs sel)) = ?rs" for sel
    by (simp add: scenario_input_def scenario_datum_included present_non_empty_def)
  have code: "industryCode (scenario_datum (4 / 5) (Some ''desc'')) = Some ''A1''"
    by (simp add: scenario_datum_def)
  obtain ps where run: "transform scenario_library (scenario_input ?rs ''A1'') 0 = Inr (ps, 0 + length ps)"
    and len: "length ps = 1"
    using scenario_run [of ?rs "''A1''" 0]
    by (auto simp: scenario_datum_included present_non_empty_def)
  obtain qs where run': "transform scenario_library (scenario_input ?rs ''a1'') 0 = Inr (qs, 0 + length qs)"
    and len': "length qs = 1"
    using scenario_run [of ?rs "''a1''" 0]
    by (auto simp: scenario_datum_included present_non_empty_def)
  from C3_highlighted [OF run, of 0 "?rs ! 0"] len
  have "highlighted (ps ! 0)"
    by (simp add: included code) (simp add: scenario_input_def)
  moreover from C3_highlighted [OF run', of 0 "?rs ! 0"] len'
  have "\<not> highlighted (qs ! 0)"
    by (simp add: included code) (simp add: scenario_input_def)
  ultimately show ?thesis
    using run len run' len' by blast
qed

subsection \<open>Length and order\<close>

text \<open>
  Claim C4. The output is never longer than the input, and it is the input restricted to
  the included records, in the input's order, each turned into its own point: the point
  at position \<open>i\<close> is the one made from the \<open>i\<close>-th included record (with the \<open>i\<close>-th
  function object allocated by the call). Nothing is merged, dropped or moved, so two
  records with one \<open>industryCode\<close> give two points.
\<close>

theorem C4_stable_filter_map:
  "\<exists>ps. transform lib input h = Inr (ps, h + length ps) \<and>
     length ps \<le> length (rawDatum input) \<and>
     length ps = length (filter included (rawDatum input)) \<and>
     map label ps = map title (filter included (rawDatum input)) \<and>
     (\<forall>i<length ps.
        make_point lib input (filter included (rawDatum input) ! i) (h + i) =
          Inr (ps ! i))"
proof -
  let ?ws = "filter included (rawDatum input)"
  from transform_points [of lib input h] obtain ps where
    run: "transform lib input h = Inr (ps, h + length ps)"
    and len: "length ps = length ?ws"
    and pts: "\<forall>i<length ps. make_point lib input (?ws ! i) (h + i) = Inr (ps ! i)"
    by blast
  have "length ps \<le> length (rawDatum input)"
    unfolding len by (rule length_filter_le)
  moreover have "map label ps = map title ?ws"
  proof (rule nth_equalityI)
    show "length (map label ps) = length (map title ?ws)"
      using len by simp
  next
    fix i assume "i < length (map label ps)"
    then have i: "i < length ps" by simp
    from run i obtain n where "label (ps ! i) = title (?ws ! i)"
      by (rule transform_nth [where d = "?ws ! i"]) simp_all
    with i len show "map label ps ! i = map title ?ws ! i"
      by simp
  qed
  ultimately show ?thesis
    using run len pts by blast
qed

text \<open>
  Three records, the second without a description and the third a copy of the first
  but for its title: two points, in the order of the records.
\<close>

theorem C4_stable_filter_map_witness:
  "\<exists>ps. transform scenario_library
       (scenario_input
          [scenario_datum 1 (Some ''desc''), scenario_datum 1 None,
           (scenario_datum 1 (Some ''desc'')) \<lparr> title := Some ''Tech 2'' \<rparr>] ''A1'') 0 = Inr (ps, 2) \<and>
     length ps = 2 \<and> map label ps = [Some ''Tech'', Some ''Tech 2''] \<and>
     map (ref \<circ> onClick) ps = [0, 1]"
proof -
  let ?a = "scenario_datum 1 (Some ''desc'')"
  let ?b = "scenario_datum 1 None"
  let ?c = "(scenario_datum 1 (Some ''desc'')) \<lparr> title := Some ''Tech 2'' \<rparr>"
  let ?input = "scenario_input [?a, ?b, ?c] ''A1'' :: (TreeNode list) Input"
  have c: "included ?c" and nc: "first_node ?c = first_node ?a"
    by (simp_all add: included_iff present_non_empty_def edges_non_empty_def
        first_node_def scenario_datum_def)
  have included: "filter included (rawDatum ?input) = [?a, ?c]"
    using c by (simp add: scenario_input_def scenario_datum_included present_non_empty_def)
  from C4_stable_filter_map [of scenario_library ?input 0] obtain ps where
    run: "transform scenario_library ?input 0 = Inr (ps, 0 + length ps)"
    and len: "length ps = 2"
    and labels: "map label ps = map title [?a, ?c]"
    and pts: "\<forall>i<length ps. make_point scenario_library ?input ([?a, ?c] ! i) (0 + i) = Inr (ps ! i)"
    unfolding included by auto
  from pts len have "make_point scenario_library ?input ?a 0 = Inr (ps ! 0)"
    and "make_point scenario_library ?input ?c 1 = Inr (ps ! 1)"
    by (auto dest: spec [of _ 0] spec [of _ 1])
  then have "ref (onClick (ps ! 0)) = 0" and "ref (onClick (ps ! 1)) = 1"
    unfolding make_point_first_node [OF scenario_first_node]
      make_point_first_node [OF nc [unfolded scenario_first_node]]
    by (auto dest: sym)
  with len have "map (ref \<circ> onClick) ps = [0, 1]"
    by (auto simp: list_eq_iff_nth_eq less_Suc_eq numeral_2_eq_2)
  moreover from labels have "map label ps = [Some ''Tech'', Some ''Tech 2'']"
    by (simp add: scenario_datum_def)
  ultimately show ?thesis
    using run len by auto
qed

subsection \<open>The tooltip\<close>

text \<open>
  Claim C9. The \<open>tooltipContent\<close> of the point of every included record is the
  concatenation in which the label \<open>Theme:\<close> is followed by the record's
  \<open>description\<close>, \<open>SubTheme:\<close> by its \<open>keywords\<close>, \<open>Description:\<close> by its \<open>title\<close>,
  and \<open>Viability:\<close> and \<open>Attractiveness:\<close> by the strings of the values stored in
  \<open>x\<close> and \<open>y\<close>, which are the \<open>viability\<close> and the \<open>attractiveness\<close> of the first
  edge's node; where these are numbers, by the strings of the numbers.
\<close>

theorem C9_tooltip_content:
  assumes "transform lib input h = Inr (ps, h')" and "i < length ps"
    and "d = filter included (rawDatum input) ! i"
  shows "\<exists>dsc kw t n.
    description d = Some dsc \<and> keywords' d = Some kw \<and> title d = Some t \<and>
    first_node d = Some n \<and> x (ps ! i) = viability n \<and> y (ps ! i) = attractiveness n \<and>
    tooltipContent (ps ! i) =
      ''<strong>Theme:</strong> '' @ dsc @
      ''<br /><strong>SubTheme:</strong> '' @ kw @
      ''<br /><strong>Description:</strong> '' @ t @
      ''<br /><strong>Viability:</strong> '' @ string_of_number lib (x (ps ! i)) @
      ''<br /><strong>Attractiveness:</strong> '' @ string_of_number lib (y (ps ! i)) \<and>
    (\<forall>v a. viability n = Number v \<and> attractiveness n = Number a \<longrightarrow>
       x (ps ! i) = Number v \<and> y (ps ! i) = Number a \<and>
       tooltipContent (ps ! i) =
         ''<strong>Theme:</strong> '' @ dsc @
         ''<br /><strong>SubTheme:</strong> '' @ kw @
         ''<br /><strong>Description:</strong> '' @ t @
         ''<br /><strong>Viability:</strong> '' @ numberToString lib v @
         ''<br /><strong>Attractiveness:</strong> '' @ numberToString lib a)"
proof -
  from assms obtain n where inc: "included d" and n: "first_node d = Some n"
    and xy: "x (ps ! i) = viability n" "y (ps ! i) = attractiveness n"
    and tip: "tooltipContent (ps ! i) =
      ''<strong>Theme:</strong> '' @ string_of_string (description d) @
      ''<br /><strong>SubTheme:</strong> '' @ string_of_string (keywords' d) @
      ''<br /><strong>Description:</strong> '' @ string_of_string (title d) @
      ''<br /><strong>Viability:</strong> '' @ string_of_number lib (viability n) @
      ''<br /><strong>Attractiveness:</strong> '' @ string_of_number lib (attractiveness n)"
    by (rule transform_nth) simp
  from inc obtain ic t kw dsc where strings: "title d = Some t" "keywords' d = Some kw"
    "description d = Some dsc"
    by (rule included_strings)
  from tip have tip': "tooltipContent (ps ! i) =
      ''<strong>Theme:</strong> '' @ dsc @
      ''<br /><strong>SubTheme:</strong> '' @ kw @
      ''<br /><strong>Description:</strong> '' @ t @
      ''<br /><strong>Viability:</strong> '' @ string_of_number lib (x (ps ! i)) @
      ''<br /><strong>Attractiveness:</strong> '' @ string_of_number lib (y (ps ! i))"
    unfolding strings xy string_of_string_def by simp
  have "\<forall>v a. viability n = Number v \<and> attractiveness n = Number a \<longrightarrow>
       x (ps ! i) = Number v \<and> y (ps ! i) = Number a \<and>
       tooltipContent (ps ! i) =
         ''<strong>Theme:</strong> '' @ dsc @
         ''<br /><strong>SubTheme:</strong> '' @ kw @
         ''<br /><strong>Description:</strong> '' @ t @
         ''<br /><strong>Viability:</strong> '' @ numberToString lib v @
         ''<br /><strong>Attractiveness:</strong> '' @ numberToString lib a"
    using tip' xy by (simp add: string_of_number_def)
  with strings n xy tip' show ?thesis
    by blast
qed

text \<open>The tooltip of the record of the concrete scenario.\<close>

theorem C9_tooltip_content_witness:
  "\<exists>ps h'. transform scenario_library
       (scenario_input [scenario_datum (4 / 5) (Some ''desc'')] ''A1'') 0 = Inr (ps, h') \<and>
     length ps = 1 \<and>
     tooltipContent (ps ! 0) =
       ''<strong>Theme:</strong> desc<br /><strong>SubTheme:</strong> soft'' @
       ''<br /><strong>Description:</strong> Tech<br /><strong>Viability:</strong> 5'' @
       ''<br /><strong>Attractiveness:</strong> 7''"
proof -
  let ?d = "scenario_datum (4 / 5) (Some ''desc'')"
  let ?input = "scenario_input [?d] ''A1'' :: (TreeNode list) Input"
  have included: "filter included (rawDatum ?input) ! 0 = ?d"
    by (simp add: scenario_input_def scenario_datum_included present_non_empty_def)
  obtain ps where run: "transform scenario_library ?input 0 = Inr (ps, 0 + length ps)"
    and len: "length ps = 1"
    using scenario_run [of "[?d]" "''A1''" 0]
    by (auto simp: scenario_datum_included present_non_empty_def)
  from len have "0 < length ps" by simp
  from C9_tooltip_content [OF run this included [symmetric]]
  obtain dsc kw t n where
    fields: "description ?d = Some dsc" "keywords' ?d = Some kw" "title ?d = Some t"
      "first_node ?d = Some n"
    and tip: "\<forall>v a. viability n = Number v \<and> attractiveness n = Number a \<longrightarrow>
      tooltipContent (ps ! 0) =
        ''<strong>Theme:</strong> '' @ dsc @
        ''<br /><strong>SubTheme:</strong> '' @ kw @
        ''<br /><strong>Description:</strong> '' @ t @
        ''<br /><strong>Viability:</strong> '' @ numberToString scenario_library v @
        ''<br /><strong>Attractiveness:</strong> '' @ numberToString scenario_library a"
    by blast
  from fields have known: "dsc = ''desc''" "kw = ''soft''" "t = ''Tech''"
    "viability n = Number 5" "attractiveness n = Number 7"
    by (auto simp: scenario_first_node) (simp_all add: scenario_datum_def)
  with tip have "tooltipContent (ps ! 0) =
      ''<strong>Theme:</strong> '' @ dsc @
      ''<br /><strong>SubTheme:</strong> '' @ kw @
      ''<br /><strong>Description:</strong> '' @ t @
      ''<br /><strong>Viability:</strong> '' @ numberToString scenario_library 5 @
      ''<br /><strong>Attractiveness:</strong> '' @ numberToString scenario_library 7"
    by blast
  with known have "tooltipContent (ps ! 0) =
       ''<strong>Theme:</strong> desc<br /><strong>SubTheme:</strong> soft'' @
       ''<br /><strong>Description:</strong> Tech<br /><strong>Viability:</strong> 5'' @
       ''<br /><strong>Attractiveness:</strong> 7''"
    by (simp add: scenario_library_def)
  with run len show ?thesis by blast
qed

subsection \<open>Two calls\<close>

lemma make_point_other_fields:
  assumes "first_node d = Some n"
    and "make_point lib input d r1 = Inr p1" and "make_point lib input d r2 = Inr p2"
  shows "other_fields p1 = other_fields p2" and "call (onClick p1) = call (onClick p2)"
    and "ref (onClick p1) = r1" and "ref (onClick p2) = r2"
  using assms(2,3) unfolding make_point_first_node [OF assms(1)]
  by (auto simp: other_fields_def)

lemma transform_nth_ref:
  assumes "transform lib input h = Inr (ps, h')" and "i < length ps"
  shows "ref (onClick (ps ! i)) = h + i"
proof -
  from assms obtain n where
    "ref (onClick (ps ! i)) = h + i"
    by (rule transform_nth [where d = "filter included (rawDatum input) ! i"])
      simp_all
  then show ?thesis .
qed

text \<open>
  Claim C10. Two calls of the transform with one record list, one \<open>id\<close> and one callback
  return, whatever function objects were allocated before each, lists of points that
  agree in every field but \<open>onClick\<close>. (The closures stored in \<open>onClick\<close> do the same
  thing when called; only their identities can differ.)
\<close>

theorem C10_two_calls_agree:
  "\<exists>ps1 h1' ps2 h2'.
     transform lib input h1 = Inr (ps1, h1') \<and> transform lib input h2 = Inr (ps2, h2') \<and>
     map other_fields ps1 = map other_fields ps2 \<and>
     map (call \<circ> onClick) ps1 = map (call \<circ> onClick) ps2"
proof -
  let ?ws = "filter included (rawDatum input)"
  from transform_points [of lib input h1] obtain ps1 where
    run1: "transform lib input h1 = Inr (ps1, h1 + length ps1)"
    and len1: "length ps1 = length ?ws"
    and pts1: "\<forall>i<length ps1. make_point lib input (?ws ! i) (h1 + i) = Inr (ps1 ! i)"
    by blast
  from transform_points [of lib input h2] obtain ps2 where
    run2: "transform lib input h2 = Inr (ps2, h2 + length ps2)"
    and len2: "length ps2 = length ?ws"
    and pts2: "\<forall>i<length ps2. make_point lib input (?ws ! i) (h2 + i) = Inr (ps2 ! i)"
    by blast
  have same: "other_fields (ps1 ! i) = other_fields (ps2 ! i) \<and>
      call (onClick (ps1 ! i)) = call (onClick (ps2 ! i))" if i: "i < length ?ws" for i
  proof -
    from i have "included (?ws ! i)"
      by (rule nth_filter_holds)
    then obtain n where n: "first_node (?ws ! i) = Some n"
      by (rule included_first_node)
    from i pts1 len1 have p1: "make_point lib input (?ws ! i) (h1 + i) = Inr (ps1 ! i)"
      by simp
    from i pts2 len2 have p2: "make_point lib input (?ws ! i) (h2 + i) = Inr (ps2 ! i)"
      by simp
    from make_point_other_fields(1,2) [OF n p1 p2] show ?thesis
      by simp
  qed
  have "map other_fields ps1 = map other_fields ps2"
    using len1 len2 same by (intro nth_equalityI) simp_all
  moreover have "map (call \<circ> onClick) ps1 = map (call \<circ> onClick) ps2"
    using len1 len2 same by (intro nth_equalityI) simp_all
  ultimately show ?thesis
    using run1 run2 by blast
qed

text \<open>
  Two calls in a row on the record of the concrete scenario: the second call starts
  where the first stopped, and the two points differ in the identity of \<open>onClick\<close> only.
\<close>

theorem C10_two_calls_agree_witness:
  "\<exists>p1 p2.
     transform scenario_library (scenario_input [scenario_datum (4 / 5) (Some ''desc'')] ''A1'') 0 =
       Inr ([p1], 1) \<and>
     transform scenario_library (scenario_input [scenario_datum (4 / 5) (Some ''desc'')] ''A1'') 1 =
       Inr ([p2], 2) \<and>
     other_fields p1 = other_fields p2 \<and> call (onClick p1) = call (onClick p2) \<and>
     ref (onClick p1) = 0 \<and> ref (onClick p2) = 1"
proof -
  let ?d = "scenario_datum (4 / 5) (Some ''desc'')"
  let ?input = "scenario_input [?d] ''A1'' :: (TreeNode list) Input"
  have wf: "included ?d"
    by (simp add: scenario_datum_included present_non_empty_def)
  from C10_two_calls_agree [of scenario_library ?input 0 1] obtain ps1 h1' ps2 h2' where
    run1: "transform scenario_library ?input 0 = Inr (ps1, h1')"
    and run2: "transform scenario_library ?input 1 = Inr (ps2, h2')"
    and same: "map other_fields ps1 = map other_fields ps2"
      "map (call \<circ> onClick) ps1 = map (call \<circ> onClick) ps2"
    by blast
  from transform_length [OF run1] wf have len1: "length ps1 = 1" and h1': "h1' = 1"
    by (simp_all add: scenario_input_def)
  from transform_length [OF run2] wf have len2: "length ps2 = 1" and h2': "h2' = 2"
    by (simp_all add: scenario_input_def)
  from len1 obtain p1 where ps1: "ps1 = [p1]"
    by (cases ps1) simp_all
  from len2 obtain p2 where ps2: "ps2 = [p2]"
    by (cases ps2) simp_all
  from transform_nth_ref [OF run1, of 0] transform_nth_ref [OF run2, of 0]
  have "ref (onClick p1) = 0" "ref (onClick p2) = 1"
    unfolding ps1 ps2 by simp_all
  with run1 run2 same show ?thesis
    unfolding ps1 ps2 h1' h2' by simp
qed

section \<open>Properties of the chart host\<close>

lemma render_effect_attached:
  assumes "svgNodeRef refs = Some sv" "sizingNodeRef refs = Some s" "tooltipNodeRef refs = Some tt"
  shows "render_effect props refs =
    (if vizType props = VizType_ScatterPlot then
       Inr ([CreateScatterPlot (Select sv) (Select tt) (data props)
               \<lparr> width = clientWidth s, height = clientHeight s \<rparr> (axisLabels props)],
            Some sv)
     else if vizType props = VizType_BarChart then
       Inr ([CreateBarChart (Select sv) (Select tt) (data props)
               \<lparr> width = clientWidth s, height = clientHeight s \<rparr>
               (axisLabels props) (overlayData props)],
            Some sv)
     else if vizType props = VizType_RadarChart then
       (case color props of
          None \<Rightarrow> Inl TypeError
        | Some c \<Rightarrow>
            Inr ([CreateRadarChart (Select sv) (Select tt) (data props)
                    \<lparr> width = min (clientWidth s) (clientHeight s),
                      height = min (clientWidth s) (clientHeight s),
                      color_range = [start c, end' c], max_value = maxValue props \<rparr>],
                 Some sv))
     else Inr ([], Some sv))"
  using assms by (simp add: render_effect_def Let_def min_def split: option.splits)

lemma render_effect_detached:
  assumes "svgNodeRef refs = None \<or> sizingNodeRef refs = None \<or> tooltipNodeRef refs = None"
  shows "render_effect props refs = Inr ([], None)"
  using assms by (auto simp: render_effect_def split: option.splits)

lemma VizType_distinct:
  "VizType_ScatterPlot \<noteq> VizType_BarChart" "VizType_ScatterPlot \<noteq> VizType_RadarChart"
  "VizType_BarChart \<noteq> VizType_RadarChart"
  by (simp_all add: VizType_ScatterPlot_def VizType_BarChart_def VizType_RadarChart_def)

lemma handleDownloadImage_radar:
  assumes "vizType props = VizType_RadarChart" and "sizingNodeRef refs = Some s"
  shows "dl_width (handleDownloadImage props refs) = Some (min (clientWidth s) (clientHeight s) * 3)"
    and "dl_height (handleDownloadImage props refs) = Some (min (clientWidth s) (clientHeight s) * 3)"
  using assms by (simp_all add: handleDownloadImage_def Let_def min_def)

lemma handleDownloadImage_box:
  assumes "vizType props \<noteq> VizType_RadarChart" and "sizingNodeRef refs = Some s"
  shows "dl_width (handleDownloadImage props refs) =
      (if clientWidth s \<noteq> 0 then Some (clientWidth s * 3) else None)"
    and "dl_height (handleDownloadImage props refs) =
      (if clientHeight s \<noteq> 0 then Some (clientHeight s * 3) else None)"
  using assms by (simp_all add: handleDownloadImage_def Let_def)

lemma handleDownloadImage_detached:
  assumes "sizingNodeRef refs = None"
  shows "dl_width (handleDownloadImage props refs) = None"
    and "dl_height (handleDownloadImage props refs) = None"
  using assms by (simp_all add: handleDownloadImage_def Let_def split: bool.splits)

subsection \<open>The size of a radar chart\<close>

text \<open>
  Claim C5. When the chart host renders a radar chart, whatever the container measures,
  the one call it makes is to the radar primitive, and the \<open>width\<close> and \<open>height\<close> it
  passes are both the smaller of the container's width and height.
\<close>

theorem C5_radar_square:
  assumes "svgNodeRef refs = Some sv" and "sizingNodeRef refs = Some s"
    and "tooltipNodeRef refs = Some tt"
    and "vizType props = VizType_RadarChart" and "color props = Some c"
  shows "\<exists>options.
    render_effect props refs =
      Inr ([CreateRadarChart (Select sv) (Select tt) (data props) options], Some sv) \<and>
    width options = min (clientWidth s) (clientHeight s) \<and>
    height options = min (clientWidth s) (clientHeight s)"
proof -
  from assms(4) have "vizType props \<noteq> VizType_ScatterPlot" "vizType props \<noteq> VizType_BarChart"
    using VizType_distinct by simp_all
  with assms show ?thesis
    by (simp add: render_effect_attached)
qed

text \<open>A radar chart in a container of 800 by 400 is drawn 400 by 400.\<close>

theorem C5_radar_square_witness:
  "\<exists>options.
    render_effect (scenario_props VizType_RadarChart) (scenario_refs 800 400) =
      Inr ([CreateRadarChart (Select ()) (Select ()) () options], Some ()) \<and>
    width options = 400 \<and> height options = 400"
  using C5_radar_square [of "scenario_refs 800 400" "()"
      "\<lparr> clientWidth = 800, clientHeight = 400 \<rparr>" "()" "scenario_props VizType_RadarChart"
      "\<lparr> start = ''#000'', end' = ''#fff'' \<rparr>"]
  by (simp add: scenario_refs_def scenario_props_def)

subsection \<open>The size of an exported image\<close>

text \<open>
  Claim C6. When the container is attached and neither of its measurements is zero, the
  \<open>width\<close> and \<open>height\<close> given to \<open>downloadImage\<close> are three times the container's
  for a chart that is not a radar chart, and three times the smaller of the two for a
  radar chart; and when the render effect has drawn the chart, they are three times the
  \<open>width\<close> and \<open>height\<close> the drawing primitive was given.
\<close>

theorem C6_export_three_times:
  assumes "sizingNodeRef refs = Some s" and "0 < clientWidth s" and "0 < clientHeight s"
  shows "(vizType props \<noteq> VizType_RadarChart \<longrightarrow>
       dl_width (handleDownloadImage props refs) = Some (3 * clientWidth s) \<and>
       dl_height (handleDownloadImage props refs) = Some (3 * clientHeight s)) \<and>
     (vizType props = VizType_RadarChart \<longrightarrow>
       dl_width (handleDownloadImage props refs) = Some (3 * min (clientWidth s) (clientHeight s)) \<and>
       dl_height (handleDownloadImage props refs) = Some (3 * min (clientWidth s) (clientHeight s))) \<and>
     (\<forall>c sv. render_effect props refs = Inr ([c], sv) \<longrightarrow>
       dl_width (handleDownloadImage props refs) = Some (3 * fst (drawn_size c)) \<and>
       dl_height (handleDownloadImage props refs) = Some (3 * snd (drawn_size c)))"
proof (intro conjI impI allI)
  assume "vizType props \<noteq> VizType_RadarChart"
  from handleDownloadImage_box [OF this assms(1)] assms(2,3)
  show "dl_width (handleDownloadImage props refs) = Some (3 * clientWidth s)"
    and "dl_height (handleDownloadImage props refs) = Some (3 * clientHeight s)"
    by (simp_all add: mult.commute)
next
  assume "vizType props = VizType_RadarChart"
  from handleDownloadImage_radar [OF this assms(1)]
  show "dl_width (handleDownloadImage props refs) = Some (3 * min (clientWidth s) (clientHeight s))"
    and "dl_height (handleDownloadImage props refs) = Some (3 * min (clientWidth s) (clientHeight s))"
    by (simp_all add: mult.commute)
next
  fix c sv
  assume drawn: "render_effect props refs = Inr ([c], sv)"
  have attached: "svgNodeRef refs \<noteq> None \<and> tooltipNodeRef refs \<noteq> None"
  proof (rule ccontr)
    assume "\<not> ?thesis"
    then have "render_effect props refs = Inr ([], None)"
      by (intro render_effect_detached) blast
    with drawn show False by simp
  qed
  then obtain sv' tt where refs: "svgNodeRef refs = Some sv'" "tooltipNodeRef refs = Some tt"
    by auto
  note effect = render_effect_attached [OF refs(1) assms(1) refs(2), of props]
  show "dl_width (handleDownloadImage props refs) = Some (3 * fst (drawn_size c))"
  proof (cases "vizType props = VizType_RadarChart")
    case True
    with drawn effect VizType_distinct have "fst (drawn_size c) = min (clientWidth s) (clientHeight s)"
      by (auto split: option.splits)
    with handleDownloadImage_radar(1) [OF True assms(1)] show ?thesis
      by (simp add: mult.commute)
  next
    case False
    with drawn effect have "fst (drawn_size c) = clientWidth s"
      by (auto split: if_splits)
    with handleDownloadImage_box(1) [OF False assms(1)] assms(2) show ?thesis
      by (simp add: mult.commute)
  qed
  show "dl_height (handleDownloadImage props refs) = Some (3 * snd (drawn_size c))"
  proof (cases "vizType props = VizType_RadarChart")
    case True
    with drawn effect VizType_distinct have "snd (drawn_size c) = min (clientWidth s) (clientHeight s)"
      by (auto split: option.splits)
    with handleDownloadImage_radar(2) [OF True assms(1)] show ?thesis
      by (simp add: mult.commute)
  next
    case False
    with drawn effect have "snd (drawn_size c) = clientHeight s"
      by (auto split: if_splits)
    with handleDownloadImage_box(2) [OF False assms(1)] assms(3) show ?thesis
      by (simp add: mult.commute)
  qed
qed

text \<open>
  A container of 800 by 400: a radar chart is drawn 400 by 400 and exported 1200 by
  1200; a scatter plot is drawn 800 by 400 and exported 2400 by 1200.
\<close>

theorem C6_export_three_times_witness:
  "(\<exists>c. render_effect (scenario_props VizType_RadarChart) (scenario_refs 800 400) =
         Inr ([c], Some ()) \<and> drawn_size c = (400, 400)) \<and>
   dl_width (handleDownloadImage (scenario_props VizType_RadarChart) (scenario_refs 800 400)) =
     Some 1200 \<and>
   dl_height (handleDownloadImage (scenario_props VizType_RadarChart) (scenario_refs 800 400)) =
     Some 1200 \<and>
   (\<exists>c. render_effect (scenario_props VizType_ScatterPlot) (scenario_refs 800 400) =
         Inr ([c], Some ()) \<and> drawn_size c = (800, 400)) \<and>
   dl_width (handleDownloadImage (scenario_props VizType_ScatterPlot) (scenario_refs 800 400)) =
     Some 2400 \<and>
   dl_height (handleDownloadImage (scenario_props VizType_ScatterPlot) (scenario_refs 800 400)) =
     Some 1200"
proof -
  let ?s = "\<lparr> clientWidth = 800, clientHeight = 400 \<rparr>"
  let ?refs = "scenario_refs 800 400"
  have s: "sizingNodeRef ?refs = Some ?s" "0 < clientWidth ?s" "0 < clientHeight ?s"
    by (simp_all add: scenario_refs_def)
  have radar: "\<exists>c. render_effect (scenario_props VizType_RadarChart) ?refs = Inr ([c], Some ()) \<and>
      drawn_size c = (400, 400)"
    by (simp add: render_effect_def scenario_props_def scenario_refs_def
        VizType_ScatterPlot_def VizType_BarChart_def VizType_RadarChart_def)
  have scatter: "\<exists>c. render_effect (scenario_props VizType_ScatterPlot) ?refs = Inr ([c], Some ()) \<and>
      drawn_size c = (800, 400)"
    by (simp add: render_effect_def scenario_props_def scenario_refs_def)
  from radar obtain c where
    c: "render_effect (scenario_props VizType_RadarChart) ?refs = Inr ([c], Some ())"
      "drawn_size c = (400, 400)"
    by blast
  from scatter obtain c' where
    c': "render_effect (scenario_props VizType_ScatterPlot) ?refs = Inr ([c'], Some ())"
      "drawn_size c' = (800, 400)"
    by blast
  from C6_export_three_times [OF s, of "scenario_props VizType_RadarChart"] c
  have "dl_width (handleDownloadImage (scenario_props VizType_RadarChart) ?refs) = Some 1200"
    and "dl_height (handleDownloadImage (scenario_props VizType_RadarChart) ?refs) = Some 1200"
    by auto
  moreover
  from C6_export_three_times [OF s, of "scenario_props VizType_ScatterPlot"] c'
  have "dl_width (handleDownloadImage (scenario_props VizType_ScatterPlot) ?refs) = Some 2400"
    and "dl_height (handleDownloadImage (scenario_props VizType_ScatterPlot) ?refs) = Some 1200"
    by auto
  ultimately show ?thesis
    using radar scatter by blast
qed

subsection \<open>A container without a size\<close>

text \<open>
  Claim C7. The claim is that, for every chart type, a container that is not attached or
  measures zero in width or height leaves the corresponding export \<open>width\<close> or
  \<open>height\<close> undefined. The branch for scatter plots and bar charts does so, and so does
  every chart with no container attached. The branch for radar charts does not test the
  measurements: with a container of 0 by 450 it passes \<open>0 * 3\<close> for both, where the
  scatter plot in the same container passes no \<open>width\<close> and 1350 for \<open>height\<close>.
\<close>

theorem C7_radar_zero_size_computed:
  "handleDownloadImage (scenario_props VizType_RadarChart) (scenario_refs 0 450) =
     DownloadImage (Some ()) (Some 0) (Some 0) ''chart'' \<and>
   handleDownloadImage (scenario_props VizType_ScatterPlot) (scenario_refs 0 450) =
     DownloadImage (Some ()) None (Some 1350) ''chart'' \<and>
   handleDownloadImage (scenario_props VizType_RadarChart)
       ((scenario_refs 0 450) \<lparr> sizingNodeRef := None \<rparr>) =
     DownloadImage (Some ()) None None ''chart''"
  by (simp add: handleDownloadImage_def scenario_props_def scenario_refs_def truthy_string_def
      VizType_ScatterPlot_def VizType_RadarChart_def)

subsection \<open>An unrecognised chart type\<close>

text \<open>
  Claim C8. When the chart-type tag is none of \<open>ScatterPlot\<close>, \<open>BarChart\<close> and
  \<open>RadarChart\<close>, the render effect returns without an exception and has called none
  of the three drawing primitives, whether or not the refs are attached.
\<close>

theorem C8_unrecognised_tag_draws_nothing:
  assumes "vizType props \<notin> {VizType_ScatterPlot, VizType_BarChart, VizType_RadarChart}"
  shows "\<exists>sv. render_effect props refs = Inr ([], sv)"
proof (cases "svgNodeRef refs = None \<or> sizingNodeRef refs = None \<or> tooltipNodeRef refs = None")
  case True
  then have "render_effect props refs = Inr ([], None)"
    by (rule render_effect_detached)
  then show ?thesis ..
next
  case False
  then obtain sv s tt where "svgNodeRef refs = Some sv" "sizingNodeRef refs = Some s"
    "tooltipNodeRef refs = Some tt"
    by auto
  from render_effect_attached [OF this, of props] assms
  have "render_effect props refs = Inr ([], Some sv)"
    by simp
  then show ?thesis ..
qed

text \<open>The tag \<open>PieChart\<close>, with every ref attached: nothing is drawn.\<close>

theorem C8_unrecognised_tag_draws_nothing_witness:
  "''PieChart'' \<notin> {VizType_ScatterPlot, VizType_BarChart, VizType_RadarChart} \<and>
   render_effect (scenario_props ''PieChart'') (scenario_refs 800 400) = Inr ([], Some ())"
proof -
  have tag: "vizType (scenario_props ''PieChart'') \<notin>
      {VizType_ScatterPlot, VizType_BarChart, VizType_RadarChart}"
    by (simp add: scenario_props_def VizType_ScatterPlot_def VizType_BarChart_def
        VizType_RadarChart_def)
  from C8_unrecognised_tag_draws_nothing [OF tag, of "scenario_refs 800 400"]
  obtain sv where "render_effect (scenario_props ''PieChart'') (scenario_refs 800 400) = Inr ([], sv)"
    by blast
  moreover have "svgNodeRef (scenario_refs 800 400) = Some ()"
    "sizingNodeRef (scenario_refs 800 400) = Some \<lparr> clientWidth = 800, clientHeight = 400 \<rparr>"
    "tooltipNodeRef (scenario_refs 800 400) = Some ()"
    by (simp_all add: scenario_refs_def)
  note render_effect_attached [OF this, of "scenario_props ''PieChart''"]
  ultimately have "sv = Some ()"
    using tag by simp
  with \<open>render_effect (scenario_props ''PieChart'') (scenario_refs 800 400) = Inr ([], sv)\<close> tag
  show ?thesis
    by (simp add: scenario_props_def)
qed

end
